theory Spec2Isabelle
  imports Main "HOL-Library.Word" "HOL-Library.Char_ord" "HOL-Library.List_Lexorder"
begin

unbundle bit_operations_syntax

section \<open>Errors\<close>

text \<open>
  Go's \<^verbatim>\<open>error\<close> values that the render command and the filesystem helper create
  or compare with.  \<open>ErrExist\<close> and \<open>ErrNotExist\<close> are the sentinels
  \<^verbatim>\<open>fs.ErrExist\<close> (the same value as \<^verbatim>\<open>os.ErrExist\<close>) and \<^verbatim>\<open>fs.ErrNotExist\<close>;
  \<open>Errno\<close> is a \<^verbatim>\<open>syscall.Errno\<close>; \<open>PathError op path err\<close> is \<^verbatim>\<open>*fs.PathError\<close>;
  \<open>ErrorString\<close> is what \<^verbatim>\<open>errors.New\<close> and \<^verbatim>\<open>fmt.Errorf\<close> (without \<^verbatim>\<open>%w\<close>)
  return; \<open>ErrDirExists\<close> is the struct of that name in filesystem.go; \<open>Canceled\<close> is
  \<^verbatim>\<open>context.Canceled\<close>, which toFile's comment names as the error of an interrupted
  prompt; \<open>EOF\<close> is \<^verbatim>\<open>io.EOF\<close>.  A function returning \<^verbatim>\<open>error\<close> returns
  \<open>error option\<close> here, \<open>None\<close> for \<^verbatim>\<open>nil\<close>.
\<close>

datatype errno = ENOENT | EEXIST | ENOTEMPTY | EACCES | EPERM | ENOTDIR | EISDIR | ENOSPC | EIO

datatype error =
    ErrExist
  | ErrNotExist
  | ErrPermission
  | ErrNoTemplatesRendered
  | Canceled
  | EOF
  | Errno errno
  | PathError string string error
  | ErrorString string
  | ErrDirExists string string error

text \<open>\<^verbatim>\<open>func (e Errno) Is(target error) bool\<close> of package syscall.\<close>

fun errno_Is :: "errno \<Rightarrow> error \<Rightarrow> bool" where
  "errno_Is e ErrPermission = (e = EACCES \<or> e = EPERM)"
| "errno_Is e ErrExist = (e = EEXIST \<or> e = ENOTEMPTY)"
| "errno_Is e ErrNotExist = (e = ENOENT)"
| "errno_Is e _ = False"

text \<open>
  \<^verbatim>\<open>errors.Is\<close> (errors.go forwards to the standard library): the error is the target,
  or its own \<^verbatim>\<open>Is\<close> method accepts the target (\<^verbatim>\<open>ErrDirExists.Is\<close> of filesystem.go
  accepts exactly \<^verbatim>\<open>fs.ErrExist\<close>), or the error it wraps matches (\<^verbatim>\<open>PathError.Unwrap\<close>).
\<close>

fun errors_Is :: "error \<Rightarrow> error \<Rightarrow> bool" where
  "errors_Is (PathError opn p inner) target =
     (PathError opn p inner = target \<or> errors_Is inner target)"
| "errors_Is (Errno e) target = (Errno e = target \<or> errno_Is e target)"
| "errors_Is (ErrDirExists opn p inner) target =
     (ErrDirExists opn p inner = target \<or> target = ErrExist)"
| "errors_Is err target = (err = target)"



section \<open>Strings and slash-separated paths\<close>

text \<open>
  Strings are byte lists.  \<^verbatim>\<open>strings.ToLower\<close> is modelled on ASCII letters; no other
  character lowers to one of the three answers the prompt compares with.
\<close>

definition lower_char :: "char \<Rightarrow> char" where
  "lower_char c =
     (case map_of (zip ''ABCDEFGHIJKLMNOPQRSTUVWXYZ'' ''abcdefghijklmnopqrstuvwxyz'') c of
        Some l \<Rightarrow> l
      | None \<Rightarrow> c)"

definition strings_ToLower :: "string \<Rightarrow> string" where
  "strings_ToLower s = map lower_char s"

text \<open>\<^verbatim>\<open>strings.HasPrefix\<close>.\<close>

fun strings_HasPrefix :: "string \<Rightarrow> string \<Rightarrow> bool" where
  "strings_HasPrefix s [] = True"
| "strings_HasPrefix [] (p # ps) = False"
| "strings_HasPrefix (c # cs) (p # ps) = (c = p \<and> strings_HasPrefix cs ps)"

text \<open>
  \<^verbatim>\<open>strings.Replace(s, old, new, 1)\<close> for a non-empty \<open>old\<close>: scan from the left, replace
  the first place where \<open>old\<close> starts, keep the rest as it is.
\<close>

fun strings_Replace1 :: "string \<Rightarrow> string \<Rightarrow> string \<Rightarrow> string" where
  "strings_Replace1 [] old new = (if old = [] then new else [])"
| "strings_Replace1 (c # cs) old new =
     (if strings_HasPrefix (c # cs) old then new @ drop (length old) (c # cs)
      else c # strings_Replace1 cs old new)"

text \<open>
  \<^verbatim>\<open>strings.TrimRight(s, cutset)\<close>: drop characters from the right end for as long as
  they belong to the cutset.
\<close>

definition strings_TrimRight :: "string \<Rightarrow> string \<Rightarrow> string" where
  "strings_TrimRight s cutset = rev (dropWhile (\<lambda>c. c \<in> set cutset) (rev s))"

text \<open>
  Package \<^verbatim>\<open>path\<close> (and \<^verbatim>\<open>path/filepath\<close> on a system whose separator is the slash).
  \<open>path_Split\<close> cuts after the last slash.  \<open>path_Clean\<close> is the lexical clean-up:
  empty and \<^verbatim>\<open>.\<close> elements go, \<^verbatim>\<open>..\<close> removes the element before it (and disappears
  at the root), the empty result is \<^verbatim>\<open>.\<close>.  \<open>path_Join\<close> joins with slashes from the
  first non-empty element on and cleans; all elements empty gives the empty string.
\<close>

definition path_Split :: "string \<Rightarrow> string \<times> string" where
  "path_Split p =
     (rev (dropWhile (\<lambda>c. c \<noteq> CHR ''/'') (rev p)),
      rev (takeWhile (\<lambda>c. c \<noteq> CHR ''/'') (rev p)))"

fun split_slash :: "string \<Rightarrow> string \<Rightarrow> string list" where
  "split_slash acc [] = [rev acc]"
| "split_slash acc (c # cs) =
     (if c = CHR ''/'' then rev acc # split_slash [] cs else split_slash (c # acc) cs)"

fun clean_elems :: "bool \<Rightarrow> string list \<Rightarrow> string list \<Rightarrow> string list" where
  "clean_elems rooted stack [] = rev stack"
| "clean_elems rooted stack (e # es) =
     (if e = [] \<or> e = ''.'' then clean_elems rooted stack es
      else if e = ''..'' then
        (case stack of
           [] \<Rightarrow> if rooted then clean_elems rooted [] es else clean_elems rooted [e] es
         | t # ts \<Rightarrow>
             if t = ''..'' then clean_elems rooted (e # stack) es
             else clean_elems rooted ts es)
      else clean_elems rooted (e # stack) es)"

fun join_slash :: "string list \<Rightarrow> string" where
  "join_slash [] = []"
| "join_slash [e] = e"
| "join_slash (e # es) = e @ CHR ''/'' # join_slash es"

definition path_IsAbs :: "string \<Rightarrow> bool" where
  "path_IsAbs p = (case p of [] \<Rightarrow> False | c # cs \<Rightarrow> c = CHR ''/'')"

definition path_Clean :: "string \<Rightarrow> string" where
  "path_Clean p =
     (let rooted = path_IsAbs p;
          body = join_slash (clean_elems rooted [] (split_slash [] p));
          out = (if rooted then CHR ''/'' # body else body)
      in if out = [] then ''.'' else out)"

definition path_Join :: "string list \<Rightarrow> string" where
  "path_Join elems =
     (case dropWhile (\<lambda>e. e = []) elems of
        [] \<Rightarrow> []
      | e # es \<Rightarrow> path_Clean (join_slash (e # es)))"

section \<open>The render name\<close>

text \<open>formatRenderName trims the low-value elements from the rendered template name.\<close>

definition formatRenderName :: "string \<Rightarrow> string" where
  "formatRenderName name =
     (let outName = strings_Replace1 name ''/templates/'' ''/'';
          outName = strings_TrimRight outName ''.tpl''
      in outName)"

section \<open>The operating system, as the filesystem helper sees it\<close>

text \<open>
  A \<^verbatim>\<open>fs.FileMode\<close> is a 32-bit word; the directory and symbolic-link bits are where
  package \<^verbatim>\<open>io/fs\<close> puts them.  A \<^verbatim>\<open>FileInfo\<close> and a \<^verbatim>\<open>DirEntry\<close> answer
  \<^verbatim>\<open>IsDir()\<close> from their mode, as the values that \<^verbatim>\<open>os.Stat\<close> and \<^verbatim>\<open>os.ReadDir\<close>
  return do.
\<close>

type_synonym FileMode = "32 word"

definition ModeDir :: FileMode where
  "ModeDir = push_bit 31 1"

definition ModeSymlink :: FileMode where
  "ModeSymlink = push_bit 27 1"

text \<open>The octal permission literals \<^verbatim>\<open>0644\<close> and \<^verbatim>\<open>0755\<close> of the source.\<close>

definition perm_0644 :: FileMode where
  "perm_0644 = 420"

definition perm_0755 :: FileMode where
  "perm_0755 = 493"

record FileInfo =
  fi_Mode :: FileMode

definition fi_IsDir :: "FileInfo \<Rightarrow> bool" where
  "fi_IsDir info = (fi_Mode info AND ModeDir \<noteq> 0)"

record DirEntry =
  de_Name :: string
  de_Type :: FileMode

definition de_IsDir :: "DirEntry \<Rightarrow> bool" where
  "de_IsDir e = (de_Type e AND ModeDir \<noteq> 0)"

text \<open>
  The calls into packages \<^verbatim>\<open>os\<close> and \<^verbatim>\<open>io\<close> are parameters of the model: \<open>'fs\<close> is
  the state of the file system (with the process's open files and working directory),
  \<open>'h\<close> an open file.  Every call can fail, and every call that can change the file
  system returns the new state.  \<^verbatim>\<open>os.Stat\<close> returns either the info or the error,
  never both; \<^verbatim>\<open>os.ReadDir\<close> returns the entries it could read together with the
  error.
\<close>

record ('fs, 'h) os =
  os_Stat :: "string \<Rightarrow> 'fs \<Rightarrow> error + FileInfo"
  os_Getwd :: "'fs \<Rightarrow> error + string"
  os_MkdirAll :: "string \<Rightarrow> FileMode \<Rightarrow> 'fs \<Rightarrow> error option \<times> 'fs"
  os_WriteFile :: "string \<Rightarrow> string \<Rightarrow> FileMode \<Rightarrow> 'fs \<Rightarrow> error option \<times> 'fs"
  os_ReadDir :: "string \<Rightarrow> 'fs \<Rightarrow> DirEntry list \<times> error option"
  os_Open :: "string \<Rightarrow> 'fs \<Rightarrow> (error + 'h) \<times> 'fs"
  os_Create :: "string \<Rightarrow> 'fs \<Rightarrow> (error + 'h) \<times> 'fs"
  file_Close :: "'h \<Rightarrow> 'fs \<Rightarrow> error option \<times> 'fs"
  file_Sync :: "'h \<Rightarrow> 'fs \<Rightarrow> error option \<times> 'fs"
  io_Copy :: "'h \<Rightarrow> 'h \<Rightarrow> 'fs \<Rightarrow> error option \<times> 'fs"
  os_Chmod :: "string \<Rightarrow> FileMode \<Rightarrow> 'fs \<Rightarrow> error option \<times> 'fs"

text \<open>\<^verbatim>\<open>filepath.Abs\<close>: an absolute path is cleaned, a relative one joined to the
  working directory.\<close>

definition filepath_Abs :: "('fs, 'h) os \<Rightarrow> string \<Rightarrow> 'fs \<Rightarrow> error + string" where
  "filepath_Abs os p fs =
     (if path_IsAbs p then Inr (path_Clean p)
      else case os_Getwd os fs of
             Inl err \<Rightarrow> Inl err
           | Inr wd \<Rightarrow> Inr (path_Join [wd, p]))"

section \<open>filesystem.go\<close>

text \<open>
  A call that dereferences a nil \<^verbatim>\<open>FileInfo\<close> panics; \<open>Panicked\<close> is that outcome.
\<close>

datatype 'a outcome = Returned 'a | Panicked

text \<open>
  IsDir returns true if the given path is an existing directory.  When \<^verbatim>\<open>os.Stat\<close>
  fails with an error that is not \<^verbatim>\<open>ErrNotExist\<close>, the source goes on to call
  \<^verbatim>\<open>fileInfo.IsDir()\<close> on the nil info.
\<close>

definition IsDir :: "('fs, 'h) os \<Rightarrow> string \<Rightarrow> bool \<Rightarrow> 'fs \<Rightarrow> bool outcome" where
  "IsDir os p emptyPathIsValid fs =
     (if p = [] then Returned emptyPathIsValid
      else case filepath_Abs os p fs of
             Inl err \<Rightarrow> Returned False
           | Inr pathAbs \<Rightarrow>
               (case os_Stat os pathAbs fs of
                  Inl err \<Rightarrow> if errors_Is err ErrNotExist then Returned False else Panicked
                | Inr fileInfo \<Rightarrow> Returned (fi_IsDir fileInfo)))"

text \<open>Exists returns true if the given path has an \<^verbatim>\<open>os.Stat\<close>-able object.\<close>

definition Exists :: "('fs, 'h) os \<Rightarrow> string \<Rightarrow> bool \<Rightarrow> 'fs \<Rightarrow> bool" where
  "Exists os p emptyPathIsValid fs =
     (if p = [] then emptyPathIsValid
      else case filepath_Abs os p fs of
             Inl err \<Rightarrow> True
           | Inr pathAbs \<Rightarrow>
               (case os_Stat os pathAbs fs of
                  Inl err \<Rightarrow> if errors_Is err ErrNotExist then False else True
                | Inr fileInfo \<Rightarrow> True))"

text \<open>
  WriteFile checks whether the file exists before trying to overwrite it.  The checks
  are in the source's order: an existing destination without \<open>overwrite\<close> first, a
  directory second, the write last (mode \<^verbatim>\<open>0644\<close>).
\<close>

definition WriteFile ::
  "('fs, 'h) os \<Rightarrow> string \<Rightarrow> string \<Rightarrow> bool \<Rightarrow> 'fs \<Rightarrow> error option \<times> 'fs" where
  "WriteFile os destination content overwrite fs =
     (case os_Stat os destination fs of
        Inr info \<Rightarrow>
          if \<not> overwrite then (Some (PathError ''writefile'' destination ErrExist), fs)
          else if fi_IsDir info then
            (Some (PathError ''writefile'' destination
               (ErrorString ''destination is a directory'')), fs)
          else os_WriteFile os destination content perm_0644 fs
      | Inl err \<Rightarrow> os_WriteFile os destination content perm_0644 fs)"

text \<open>
  CreatePath creates a nested directory if it does not exist (mode \<^verbatim>\<open>0755\<close>); with
  \<open>errIfExists\<close> an existing directory is an error.
\<close>

definition CreatePath ::
  "('fs, 'h) os \<Rightarrow> string \<Rightarrow> bool \<Rightarrow> 'fs \<Rightarrow> error option \<times> 'fs" where
  "CreatePath os p errIfExists fs =
     (case os_Stat os p fs of
        Inr info \<Rightarrow>
          if fi_IsDir info \<and> errIfExists then
            (Some (ErrDirExists ''mkdir'' p (ErrorString ''directory already exists'')), fs)
          else os_MkdirAll os p perm_0755 fs
      | Inl err \<Rightarrow> os_MkdirAll os p perm_0755 fs)"

text \<open>
  CopyFile copies a file from one path to another.  \<open>CopyFile_body\<close> is what runs
  between the second \<^verbatim>\<open>defer\<close> and the return: copy, sync, stat the source, chmod the
  destination, stopping at the first error.  Both deferred handlers assign the result
  of their \<^verbatim>\<open>Close\<close> to the named result \<^verbatim>\<open>err\<close>; they run in reverse order once
  the body has returned, so what CopyFile returns after a successful \<^verbatim>\<open>os.Open\<close> is
  the result of closing the source file.  (The debug log lines are not modelled.)
\<close>

definition CopyFile_body ::
  "('fs, 'h) os \<Rightarrow> string \<Rightarrow> string \<Rightarrow> 'h \<Rightarrow> 'h \<Rightarrow> 'fs \<Rightarrow> error option \<times> 'fs" where
  "CopyFile_body os sourcePath destinationPath sourceFile destinationFile fs =
     (case io_Copy os destinationFile sourceFile fs of
        (Some err, fs1) \<Rightarrow> (Some err, fs1)
      | (None, fs1) \<Rightarrow>
          (case file_Sync os destinationFile fs1 of
             (Some err, fs2) \<Rightarrow> (Some err, fs2)
           | (None, fs2) \<Rightarrow>
               (case os_Stat os sourcePath fs2 of
                  Inl err \<Rightarrow> (Some err, fs2)
                | Inr sourceFileInfo \<Rightarrow>
                    os_Chmod os destinationPath (fi_Mode sourceFileInfo) fs2)))"

definition CopyFile ::
  "('fs, 'h) os \<Rightarrow> string \<Rightarrow> string \<Rightarrow> 'fs \<Rightarrow> error option \<times> 'fs" where
  "CopyFile os sourcePath destinationPath fs =
     (case os_Open os sourcePath fs of
        (Inl err, fs1) \<Rightarrow> (Some err, fs1)
      | (Inr sourceFile, fs1) \<Rightarrow>
          (case os_Create os destinationPath fs1 of
             (Inl err, fs2) \<Rightarrow> file_Close os sourceFile fs2
           | (Inr destinationFile, fs2) \<Rightarrow>
               (case CopyFile_body os sourcePath destinationPath
                       sourceFile destinationFile fs2 of
                  (err, fs3) \<Rightarrow>
                    (case file_Close os destinationFile fs3 of
                       (err', fs4) \<Rightarrow> file_Close os sourceFile fs4))))"



section \<open>The render command\<close>

text \<open>
  What the command shows goes through the \<^verbatim>\<open>terminal.UI\<close> interface.  The model keeps
  the calls made on it, in order, as \<open>ui_events\<close>; \<^verbatim>\<open>Input\<close> shows its prompt and
  returns the next answer of \<open>ui_input\<close> (a line, or the error of a failed read);
  \<^verbatim>\<open>Interactive\<close> is a fixed property of the terminal.
\<close>

datatype style = DefaultStyle | BoldStyle | WarningBoldStyle

datatype ui_event =
    UIOutput string style
  | UIPrompt string style
  | UIInfo string
  | UIErrorWithContext error string "(string \<times> string) list"

text \<open>
  The state the command works on: the fields of \<^verbatim>\<open>RenderCommand\<close> that the code
  reads and writes (\<open>autoApproved\<close> is the field of the embedded \<^verbatim>\<open>baseCommand\<close>,
  \<open>packConfig_Path\<close> is \<^verbatim>\<open>c.packConfig.Path\<close>), the file system, the terminal, and
  the \<^verbatim>\<open>UIErrorContext\<close> that all renders of a run share (a list of prefix and value,
  only ever added to).
\<close>

record 'fs state =
  renderOutputTemplate :: bool
  renderToDir :: string
  packConfig_Path :: string
  autoApproved :: bool
  filesys :: 'fs
  ui_interactive :: bool
  ui_input :: "nat \<Rightarrow> error + string"
  ui_reads :: nat
  ui_events :: "ui_event list"
  errorContext :: "(string \<times> string) list"

definition ui_Output :: "string \<Rightarrow> style \<Rightarrow> 'fs state \<Rightarrow> 'fs state" where
  "ui_Output msg sty s = s\<lparr>ui_events := ui_events s @ [UIOutput msg sty]\<rparr>"

definition ui_Info :: "string \<Rightarrow> 'fs state \<Rightarrow> 'fs state" where
  "ui_Info msg s = s\<lparr>ui_events := ui_events s @ [UIInfo msg]\<rparr>"

definition ui_ErrorWithContext ::
  "error \<Rightarrow> string \<Rightarrow> (string \<times> string) list \<Rightarrow> 'fs state \<Rightarrow> 'fs state" where
  "ui_ErrorWithContext err sub ctx s =
     s\<lparr>ui_events := ui_events s @ [UIErrorWithContext err sub ctx]\<rparr>"

definition ui_Input :: "string \<Rightarrow> style \<Rightarrow> 'fs state \<Rightarrow> (error + string) \<times> 'fs state" where
  "ui_Input prompt sty s =
     (ui_input s (ui_reads s),
      s\<lparr>ui_events := ui_events s @ [UIPrompt prompt sty], ui_reads := Suc (ui_reads s)\<rparr>)"

text \<open>The prefix constant of render.go (package errors) that toFile uses.\<close>

definition RenderContextDestFile :: string where
  "RenderContextDestFile = ''Destination File: ''"

text \<open>A \<^verbatim>\<open>Render\<close>; its two pointers are the command and the error context of the state.\<close>

record Render =
  Name :: string
  Content :: string

text \<open>
  The loop of maybeConfirmOverwrite, "loop until we get a valid response".  It can go
  on for as long as the answers are invalid, so it carries fuel: \<open>None\<close> is a loop that
  has not returned after that many prompts.
\<close>

fun promptLoop :: "nat \<Rightarrow> 'fs state \<Rightarrow> ((bool \<times> error option) \<times> 'fs state) option" where
  "promptLoop 0 s = None"
| "promptLoop (Suc fuel) s =
     (case ui_Input ''Output file exists, overwrite? [y/n/a] '' WarningBoldStyle s of
        (Inl err, s1) \<Rightarrow> Some ((False, Some err), s1)
      | (Inr answer, s1) \<Rightarrow>
          (let overwrite = strings_ToLower answer
           in if overwrite = ''y'' \<or> overwrite = ''n'' \<or> overwrite = ''a'' then
                Some ((overwrite = ''y'', None),
                      if overwrite = ''a'' then s1\<lparr>autoApproved := True\<rparr> else s1)
              else promptLoop fuel s1))"

text \<open>
  maybeConfirmOverwrite: true at once when the auto-approved flag is set or nothing
  exists at the destination, false when the terminal is not interactive, the prompt
  loop otherwise.
\<close>

definition maybeConfirmOverwrite ::
  "nat \<Rightarrow> ('fs, 'h) os \<Rightarrow> string \<Rightarrow> 'fs state \<Rightarrow>
   ((bool \<times> error option) \<times> 'fs state) option" where
  "maybeConfirmOverwrite fuel os p s =
     (if autoApproved s then Some ((True, None), s)
      else if \<not> Exists os p False (filesys s) then Some ((True, None), s)
      else if \<not> ui_interactive s then Some ((False, None), s)
      else promptLoop fuel s)"

text \<open>toFile.  The result of CreatePath is dropped, as in the source.\<close>

definition toFile ::
  "nat \<Rightarrow> ('fs, 'h) os \<Rightarrow> Render \<Rightarrow> 'fs state \<Rightarrow> (error option \<times> 'fs state) option" where
  "toFile fuel os r s =
     (case path_Split (Name r) of
        (filePath, fileName) \<Rightarrow>
          (let outDir = path_Join [renderToDir s, filePath];
               s1 = s\<lparr>filesys := snd (CreatePath os outDir False (filesys s))\<rparr>;
               outFile = path_Join [outDir, fileName]
           in case maybeConfirmOverwrite fuel os outFile s1 of
                None \<Rightarrow> None
              | Some ((overwrite, Some err), s2) \<Rightarrow> Some (Some err, s2)
              | Some ((overwrite, None), s2) \<Rightarrow>
                  if \<not> overwrite then Some (Some ErrExist, s2)
                  else
                    (case WriteFile os outFile (Content r)
                            (autoApproved s2 \<or> overwrite) (filesys s2) of
                       (Some err, fs3) \<Rightarrow>
                         Some (Some err,
                               s2\<lparr>filesys := fs3,
                                  errorContext :=
                                    errorContext s2 @ [(RenderContextDestFile, outFile)]\<rparr>)
                     | (None, fs3) \<Rightarrow> Some (None, s2\<lparr>filesys := fs3\<rparr>))))"

text \<open>toTerminal: the name with a colon in bold, an empty line, the content.\<close>

definition toTerminal :: "Render \<Rightarrow> 'fs state \<Rightarrow> 'fs state" where
  "toTerminal r s =
     ui_Output (Content r) DefaultStyle
       (ui_Output [] DefaultStyle
          (ui_Output (Name r @ '':'') BoldStyle s))"

text \<open>
  Output is the primary method for emitting the rendered templates to their
  destinations.  Only an error of toFile that \<^verbatim>\<open>errors.Is\<close> \<^verbatim>\<open>os.ErrExist\<close> is
  returned; after every other outcome of toFile the render goes to the terminal and
  Output returns nil.
\<close>

definition Output ::
  "nat \<Rightarrow> ('fs, 'h) os \<Rightarrow> Render \<Rightarrow> 'fs state \<Rightarrow> (error option \<times> 'fs state) option" where
  "Output fuel os r s =
     (if renderToDir s \<noteq> [] then
        (case toFile fuel os r s of
           None \<Rightarrow> None
         | Some (Some err, s1) \<Rightarrow>
             if errors_Is err ErrExist then Some (Some err, s1)
             else Some (None, toTerminal r s1)
         | Some (None, s1) \<Rightarrow> Some (None, toTerminal r s1))
      else Some (None, toTerminal r s))"

text \<open>
  The last loop of Run: every render is output in turn; an error that Output returns
  is shown with the error context, and the loop goes on.
\<close>

fun outputRenders ::
  "nat \<Rightarrow> ('fs, 'h) os \<Rightarrow> Render list \<Rightarrow> 'fs state \<Rightarrow> 'fs state option" where
  "outputRenders fuel os [] s = Some s"
| "outputRenders fuel os (render # rest) s =
     (case Output fuel os render s of
        None \<Rightarrow> None
      | Some (Some err, s1) \<Rightarrow>
          outputRenders fuel os rest
            (ui_ErrorWithContext err ''error rendering to file'' (errorContext s1) s1)
      | Some (None, s1) \<Rightarrow> outputRenders fuel os rest s1)"

text \<open>
  What Run gets from code outside these sources is a parameter: the argument and flag
  parser (it fills the command's fields), the pack cache, the API client, the template
  engine.  Each may show messages and change the state.  The two maps of the rendered
  output are given as the lists of their entries in the order in which \<^verbatim>\<open>range\<close>
  yields them; Go leaves that order open, so every order of a map's entries is a
  possible input.
\<close>

record RenderOutput =
  DependentRenders :: "(string \<times> string) list"
  ParentRenders :: "(string \<times> string) list"

record 'fs ext =
  ext_Init :: "string list \<Rightarrow> 'fs state \<Rightarrow> error option \<times> 'fs state"
  ext_ErrParsingArgsOrFlags :: string
  ext_helpUsageMessage :: string
  ext_initPackCommand :: "'fs state \<Rightarrow> 'fs state"
  ext_VerifyPackExists :: "'fs state \<Rightarrow> error option \<times> 'fs state"
  ext_NewClient :: "error option"
  ext_renderPack :: "'fs state \<Rightarrow> (error + RenderOutput) \<times> 'fs state"
  ext_ProcessOutputTemplate :: "'fs state \<Rightarrow> (error + string) \<times> 'fs state"

text \<open>
  The part of Run that builds the list of renders: the dependent renders, the parent
  renders, and the output template when it was asked for and rendered without error.
\<close>

definition appendRenders :: "Render list \<Rightarrow> (string \<times> string) list \<Rightarrow> Render list" where
  "appendRenders renders entries =
     foldl (\<lambda>renders (name, renderedFile).
              renders @ [\<lparr>Name = formatRenderName name, Content = renderedFile\<rparr>])
       renders entries"

definition assembleRenders ::
  "'fs ext \<Rightarrow> RenderOutput \<Rightarrow> 'fs state \<Rightarrow> Render list \<times> 'fs state" where
  "assembleRenders ext renderOutput s =
     (let renders = [];
          renders = appendRenders renders (DependentRenders renderOutput);
          renders = appendRenders renders (ParentRenders renderOutput)
      in if renderOutputTemplate s then
           (case ext_ProcessOutputTemplate ext s of
              (Inl err, s1) \<Rightarrow>
                (renders,
                 ui_ErrorWithContext err ''failed to render output template''
                   (errorContext s1) s1)
            | (Inr outputRender, s1) \<Rightarrow>
                (renders @ [\<lparr>Name = ''outputs.tpl'', Content = outputRender\<rparr>], s1))
         else (renders, s))"

text \<open>
  Run, from the "fast failure" test on: the test, the rendering, the test for no
  renders, the list of renders and its output.
\<close>

definition Run_render ::
  "nat \<Rightarrow> ('fs, 'h) os \<Rightarrow> 'fs ext \<Rightarrow> 'fs state \<Rightarrow> (int outcome \<times> 'fs state) option" where
  "Run_render fuel os ext s =
     (case (if Exists os (packConfig_Path s) True (filesys s)
            then IsDir os (packConfig_Path s) True (filesys s)
            else Returned True) of
        Panicked \<Rightarrow> Some (Panicked, s)
      | Returned False \<Rightarrow>
          Some (Returned 1,
                ui_ErrorWithContext (ErrorString ''output path exists and is not a directory'')
                  ''failed to create output directory'' (errorContext s) s)
      | Returned True \<Rightarrow>
          (case ext_renderPack ext s of
             (Inl err, s1) \<Rightarrow> Some (Returned 1, s1)
           | (Inr renderOutput, s1) \<Rightarrow>
               if length (ParentRenders renderOutput) < 1
                  \<and> length (DependentRenders renderOutput) < 1 then
                 Some (Returned 1,
                       ui_ErrorWithContext ErrNoTemplatesRendered ''no templates rendered''
                         (errorContext s1) s1)
               else
                 (case assembleRenders ext renderOutput s1 of
                    (renders, s2) \<Rightarrow>
                      (case outputRenders fuel os renders s2 of
                         None \<Rightarrow> None
                       | Some s3 \<Rightarrow> Some (Returned 0, s3)))))"

text \<open>Run satisfies the Run function of the \<^verbatim>\<open>cli.Command\<close> interface.\<close>

definition Run ::
  "nat \<Rightarrow> ('fs, 'h) os \<Rightarrow> 'fs ext \<Rightarrow> string list \<Rightarrow> 'fs state \<Rightarrow>
   (int outcome \<times> 'fs state) option" where
  "Run fuel os ext args s =
     (case ext_Init ext args s of
        (Some err, s1) \<Rightarrow>
          Some (Returned 1,
                ui_Info (ext_helpUsageMessage ext)
                  (ui_ErrorWithContext err (ext_ErrParsingArgsOrFlags ext) [] s1))
      | (None, s1) \<Rightarrow>
          (case ext_VerifyPackExists ext (ext_initPackCommand ext s1) of
             (Some err, s2) \<Rightarrow> Some (Returned 1, s2)
           | (None, s2) \<Rightarrow>
               (case ext_NewClient ext of
                  Some err \<Rightarrow>
                    Some (Returned 1,
                          ui_ErrorWithContext err ''failed to initialize client''
                            (errorContext s2) s2)
                | None \<Rightarrow> Run_render fuel os ext s2)))"

section \<open>A file system in memory\<close>

text \<open>
  A small file system on which the model can be run: a list of absolute, clean paths
  with what is there.  The root is a directory that is always present; a relative path
  is taken from the root, the working directory.  \<open>MLink\<close> is a symbolic link whose
  target is missing, so that following it finds nothing.  An open file is named by its
  path.  The theorems below hold for every operating system; this one gives their
  hypotheses a concrete instance.
\<close>

datatype mnode = MFile FileMode string | MDir FileMode | MLink

type_synonym memfs = "(string \<times> mnode) list"

definition mem_abs :: "string \<Rightarrow> string" where
  "mem_abs p = path_Clean (CHR ''/'' # p)"

definition mem_elems :: "string \<Rightarrow> string list" where
  "mem_elems p = filter (\<lambda>e. e \<noteq> []) (split_slash [] (mem_abs p))"

fun mem_walk :: "memfs \<Rightarrow> string \<Rightarrow> string list \<Rightarrow> errno + mnode" where
  "mem_walk fs cur [] =
     (if cur = [] then Inr (MDir perm_0755)
      else case map_of fs cur of None \<Rightarrow> Inl ENOENT | Some n \<Rightarrow> Inr n)"
| "mem_walk fs cur (e # es) =
     (if cur = [] then mem_walk fs (CHR ''/'' # e) es
      else case map_of fs cur of
             None \<Rightarrow> Inl ENOENT
           | Some (MDir m) \<Rightarrow> mem_walk fs (cur @ CHR ''/'' # e) es
           | Some (MFile m x) \<Rightarrow> Inl ENOTDIR
           | Some MLink \<Rightarrow> Inl ENOENT)"

definition mem_lookup :: "memfs \<Rightarrow> string \<Rightarrow> errno + mnode" where
  "mem_lookup fs p = mem_walk fs [] (mem_elems p)"

definition mem_put :: "string \<Rightarrow> mnode \<Rightarrow> memfs \<Rightarrow> memfs" where
  "mem_put p n fs =
     (if map_of fs p = None then fs @ [(p, n)]
      else map (\<lambda>(k, v). if k = p then (k, n) else (k, v)) fs)"

definition mem_Stat :: "string \<Rightarrow> memfs \<Rightarrow> error + FileInfo" where
  "mem_Stat p fs =
     (case mem_lookup fs p of
        Inl e \<Rightarrow> Inl (PathError ''stat'' p (Errno e))
      | Inr (MFile m x) \<Rightarrow> Inr \<lparr>fi_Mode = m\<rparr>
      | Inr (MDir m) \<Rightarrow> Inr \<lparr>fi_Mode = m OR ModeDir\<rparr>
      | Inr MLink \<Rightarrow> Inl (PathError ''stat'' p (Errno ENOENT)))"

fun mem_mkdirs :: "FileMode \<Rightarrow> string \<Rightarrow> string list \<Rightarrow> memfs \<Rightarrow> errno option \<times> memfs" where
  "mem_mkdirs perm cur [] fs = (None, fs)"
| "mem_mkdirs perm cur (e # es) fs =
     (case map_of fs (cur @ CHR ''/'' # e) of
        None \<Rightarrow> mem_mkdirs perm (cur @ CHR ''/'' # e) es (fs @ [(cur @ CHR ''/'' # e, MDir perm)])
      | Some (MDir m) \<Rightarrow> mem_mkdirs perm (cur @ CHR ''/'' # e) es fs
      | Some (MFile m x) \<Rightarrow> (Some ENOTDIR, fs)
      | Some MLink \<Rightarrow> (Some (if es = [] then EEXIST else ENOENT), fs))"

definition mem_MkdirAll :: "string \<Rightarrow> FileMode \<Rightarrow> memfs \<Rightarrow> error option \<times> memfs" where
  "mem_MkdirAll p perm fs =
     (case mem_mkdirs (perm AND 511) [] (mem_elems p) fs of
        (None, fs1) \<Rightarrow> (None, fs1)
      | (Some e, fs1) \<Rightarrow> (Some (PathError ''mkdir'' p (Errno e)), fs1))"

text \<open>Opening a path for writing, creating or truncating the file there.\<close>

definition mem_create :: "string \<Rightarrow> string \<Rightarrow> FileMode \<Rightarrow> memfs \<Rightarrow> errno option \<times> memfs" where
  "mem_create p content perm fs =
     (case mem_lookup fs (fst (path_Split (mem_abs p))) of
        Inl e \<Rightarrow> (Some e, fs)
      | Inr (MFile m x) \<Rightarrow> (Some ENOTDIR, fs)
      | Inr MLink \<Rightarrow> (Some ENOENT, fs)
      | Inr (MDir dm) \<Rightarrow>
          (case map_of fs (mem_abs p) of
             None \<Rightarrow> (None, mem_put (mem_abs p) (MFile (perm AND 511) content) fs)
           | Some (MFile m x) \<Rightarrow> (None, mem_put (mem_abs p) (MFile m content) fs)
           | Some (MDir m) \<Rightarrow> (Some EISDIR, fs)
           | Some MLink \<Rightarrow> (Some ENOENT, fs)))"

definition mem_WriteFile ::
  "string \<Rightarrow> string \<Rightarrow> FileMode \<Rightarrow> memfs \<Rightarrow> error option \<times> memfs" where
  "mem_WriteFile p content perm fs =
     (case mem_create p content perm fs of
        (None, fs1) \<Rightarrow> (None, fs1)
      | (Some e, fs1) \<Rightarrow> (Some (PathError ''open'' p (Errno e)), fs1))"

definition mem_entry :: "string \<Rightarrow> mnode \<Rightarrow> DirEntry" where
  "mem_entry k n =
     \<lparr>de_Name = snd (path_Split k),
      de_Type = (case n of MFile m x \<Rightarrow> 0 | MDir m \<Rightarrow> ModeDir | MLink \<Rightarrow> ModeSymlink)\<rparr>"

definition mem_ReadDir :: "string \<Rightarrow> memfs \<Rightarrow> DirEntry list \<times> error option" where
  "mem_ReadDir p fs =
     (case mem_lookup fs p of
        Inl e \<Rightarrow> ([], Some (PathError ''open'' p (Errno e)))
      | Inr (MFile m x) \<Rightarrow> ([], Some (PathError ''readdirent'' p (Errno ENOTDIR)))
      | Inr MLink \<Rightarrow> ([], Some (PathError ''open'' p (Errno ENOENT)))
      | Inr (MDir m) \<Rightarrow>
          (sort_key de_Name
             (map (\<lambda>(k, n). mem_entry k n)
                (filter (\<lambda>(k, n). k \<noteq> ''/'' \<and> path_Clean (fst (path_Split k)) = mem_abs p) fs)),
           None))"

definition mem_Open :: "string \<Rightarrow> memfs \<Rightarrow> (error + string) \<times> memfs" where
  "mem_Open p fs =
     (case mem_lookup fs p of
        Inl e \<Rightarrow> (Inl (PathError ''open'' p (Errno e)), fs)
      | Inr MLink \<Rightarrow> (Inl (PathError ''open'' p (Errno ENOENT)), fs)
      | Inr n \<Rightarrow> (Inr (mem_abs p), fs))"

definition mem_Create :: "string \<Rightarrow> memfs \<Rightarrow> (error + string) \<times> memfs" where
  "mem_Create p fs =
     (case mem_create p [] 420 fs of
        (None, fs1) \<Rightarrow> (Inr (mem_abs p), fs1)
      | (Some e, fs1) \<Rightarrow> (Inl (PathError ''open'' p (Errno e)), fs1))"

definition mem_Copy :: "string \<Rightarrow> string \<Rightarrow> memfs \<Rightarrow> error option \<times> memfs" where
  "mem_Copy dst src fs =
     (case map_of fs src of
        Some (MFile sm content) \<Rightarrow>
          (case map_of fs dst of
             Some (MFile m x) \<Rightarrow> (None, mem_put dst (MFile m content) fs)
           | _ \<Rightarrow> (Some (PathError ''write'' dst (Errno EIO)), fs))
      | _ \<Rightarrow> (Some (PathError ''read'' src (Errno EISDIR)), fs))"

definition mem_Chmod :: "string \<Rightarrow> FileMode \<Rightarrow> memfs \<Rightarrow> error option \<times> memfs" where
  "mem_Chmod p perm fs =
     (case mem_lookup fs p of
        Inl e \<Rightarrow> (Some (PathError ''chmod'' p (Errno e)), fs)
      | Inr MLink \<Rightarrow> (Some (PathError ''chmod'' p (Errno ENOENT)), fs)
      | Inr (MFile m x) \<Rightarrow> (None, mem_put (mem_abs p) (MFile (perm AND 511) x) fs)
      | Inr (MDir m) \<Rightarrow> (None, mem_put (mem_abs p) (MDir (perm AND 511)) fs))"

definition mem_os :: "(memfs, string) os" where
  "mem_os =
     \<lparr>os_Stat = mem_Stat,
      os_Getwd = (\<lambda>fs. Inr ''/''),
      os_MkdirAll = mem_MkdirAll,
      os_WriteFile = mem_WriteFile,
      os_ReadDir = mem_ReadDir,
      os_Open = mem_Open,
      os_Create = mem_Create,
      file_Close = (\<lambda>h fs. (None, fs)),
      file_Sync = (\<lambda>h fs. (None, fs)),
      io_Copy = mem_Copy,
      os_Chmod = mem_Chmod\<rparr>"

lemmas mem_defs =
  mem_os_def mem_Stat_def mem_lookup_def mem_elems_def mem_abs_def mem_MkdirAll_def
  mem_WriteFile_def mem_create_def mem_put_def mem_ReadDir_def mem_entry_def mem_Open_def
  mem_Create_def mem_Copy_def mem_Chmod_def

lemmas path_defs =
  path_Clean_def path_IsAbs_def path_Split_def path_Join_def

lemmas mode_defs =
  fi_IsDir_def de_IsDir_def ModeDir_def ModeSymlink_def perm_0755_def perm_0644_def

section \<open>Example runs\<close>

text \<open>
  Concrete inputs for the properties below.  \<open>scripted\<close> is a terminal whose user
  gives the listed answers and then closes the input.  \<open>demo_fs\<close> holds an output
  directory with one rendered job file already in it, the pack's directory, a regular
  file \<^verbatim>\<open>/notes\<close>, and a directory tree \<^verbatim>\<open>/src\<close> with a file, a symbolic link and a
  subdirectory.
\<close>

definition scripted :: "(error + string) list \<Rightarrow> nat \<Rightarrow> error + string" where
  "scripted answers n = (if n < length answers then answers ! n else Inl EOF)"

definition demo_fs :: memfs where
  "demo_fs =
     [(''/out'', MDir 493),
      (''/out/mypack'', MDir 493),
      (''/out/mypack/job.nomad'', MFile 420 ''old job''),
      (''/out/mypack/svc.nomad'', MFile 420 ''old svc''),
      (''/packs'', MDir 493),
      (''/packs/mypack'', MDir 493),
      (''/notes'', MFile 420 ''a file''),
      (''/src'', MDir 493),
      (''/src/a.txt'', MFile 420 ''hello''),
      (''/src/link'', MLink),
      (''/src/sub'', MDir 493),
      (''/src/sub/b.txt'', MFile 384 ''bye'')]"

definition demo_state :: "string \<Rightarrow> bool \<Rightarrow> (error + string) list \<Rightarrow> memfs state" where
  "demo_state toDir interactive answers =
     \<lparr>renderOutputTemplate = False,
      renderToDir = toDir,
      packConfig_Path = ''/packs/mypack'',
      autoApproved = False,
      filesys = demo_fs,
      ui_interactive = interactive,
      ui_input = scripted answers,
      ui_reads = 0,
      ui_events = [],
      errorContext = []\<rparr>"

definition job_render :: Render where
  "job_render = \<lparr>Name = ''mypack/job.nomad'', Content = ''new job''\<rparr>"

definition svc_render :: Render where
  "svc_render = \<lparr>Name = ''mypack/svc.nomad'', Content = ''new svc''\<rparr>"

definition demo_output :: RenderOutput where
  "demo_output =
     \<lparr>DependentRenders =
        [(''dep/templates/b.nomad.tpl'', ''job b''), (''dep/templates/a.nomad.tpl'', ''job a'')],
      ParentRenders =
        [(''mypack/templates/job.nomad.tpl'', ''new job''),
         (''mypack/templates/svc.nomad.tpl'', ''new svc'')]\<rparr>"

definition demo_ext :: "RenderOutput \<Rightarrow> memfs ext" where
  "demo_ext renderOutput =
     \<lparr>ext_Init = (\<lambda>args s. (None, s)),
      ext_ErrParsingArgsOrFlags = ''error parsing args or flags'',
      ext_helpUsageMessage = ''Usage: nomad-pack render <pack-name> [options]'',
      ext_initPackCommand = (\<lambda>s. s),
      ext_VerifyPackExists = (\<lambda>s. (None, s)),
      ext_NewClient = None,
      ext_renderPack = (\<lambda>s. (Inr renderOutput, s)),
      ext_ProcessOutputTemplate = (\<lambda>s. (Inr ''outputs'', s))\<rparr>"

text \<open>What toTerminal shows for a render.\<close>

definition presented :: "Render \<Rightarrow> ui_event list" where
  "presented r =
     [UIOutput (Name r @ '':'') BoldStyle, UIOutput [] DefaultStyle,
      UIOutput (Content r) DefaultStyle]"

text \<open>The events that are prompts of \<^verbatim>\<open>ui.Input\<close>.\<close>

fun is_prompt :: "ui_event \<Rightarrow> bool" where
  "is_prompt (UIPrompt msg sty) = True"
| "is_prompt ev = False"

text \<open>The render that the first two loops of Run make of a map entry.\<close>

definition entry_render :: "string \<times> string \<Rightarrow> Render" where
  "entry_render entry = \<lparr>Name = formatRenderName (fst entry), Content = snd entry\<rparr>"


text \<open>
  Modelled from the spec: the session flag is "initialized false at invocation start".
  The declaration of the field \<^verbatim>\<open>autoApproved\<close> (in \<^verbatim>\<open>baseCommand\<close>) is not among the
  sources; a Go \<^verbatim>\<open>bool\<close> field starts as false, and the flag parser may set it.
\<close>

definition initial_autoApproved :: bool where
  "initial_autoApproved = False"

lemmas run_defs =
  maybeConfirmOverwrite_def toFile_def Output_def toTerminal_def ui_Output_def ui_Input_def
  ui_ErrorWithContext_def ui_Info_def Exists_def IsDir_def filepath_Abs_def WriteFile_def
  CreatePath_def strings_ToLower_def lower_char_def RenderContextDestFile_def

lemmas demo_defs =
  demo_fs_def demo_state_def job_render_def svc_render_def demo_output_def demo_ext_def
  scripted_def

section \<open>The name rule in the specification's words\<close>

text \<open>
  The specification's rule for a render name, stated independently of the code: find
  the first index at which \<^verbatim>\<open>/templates/\<close> starts and put \<^verbatim>\<open>/\<close> in its place; then
  take characters off the right end for as long as the last one is a dot, a t, a p or
  an l.
\<close>

definition first_index :: "string \<Rightarrow> string \<Rightarrow> nat option" where
  "first_index s old = find (\<lambda>i. take (length old) (drop i s) = old) [0..<Suc (length s)]"

definition spec_replace_first :: "string \<Rightarrow> string \<Rightarrow> string \<Rightarrow> string" where
  "spec_replace_first s old new =
     (case first_index s old of
        None \<Rightarrow> s
      | Some i \<Rightarrow> take i s @ new @ drop (i + length old) s)"

function spec_strip :: "string \<Rightarrow> string" where
  "spec_strip s =
     (if s \<noteq> [] \<and> last s \<in> {CHR ''.'', CHR ''t'', CHR ''p'', CHR ''l''}
      then spec_strip (butlast s) else s)"
  by pat_completeness auto
termination
  by (relation "measure length") auto

declare spec_strip.simps [simp del]

definition spec_Format :: "string \<Rightarrow> string" where
  "spec_Format rawName = spec_strip (spec_replace_first rawName ''/templates/'' ''/'')"

section \<open>Properties of the render name\<close>

lemma strings_HasPrefix_take: "strings_HasPrefix s old = (take (length old) s = old)"
  by (induction s old rule: strings_HasPrefix.induct) auto

lemma find_map_opt: "find P (map f xs) = map_option f (find (\<lambda>x. P (f x)) xs)"
  by (induction xs) auto

lemma upt_Suc_shift: "[0..<Suc n] = 0 # map Suc [0..<n]"
  by (simp only: map_Suc_upt upt_conv_Cons[of 0 "Suc n", OF zero_less_Suc])

lemma find_upt_Suc:
  "find P [0..<Suc (Suc n)] =
     (if P 0 then Some 0 else map_option Suc (find (\<lambda>i. P (Suc i)) [0..<Suc n]))"
  by (subst upt_Suc_shift) (simp only: find.simps find_map_opt)

lemma first_index_Cons:
  "first_index (c # cs) old =
     (if take (length old) (c # cs) = old then Some 0
      else map_option Suc (first_index cs old))"
  unfolding first_index_def by (simp only: length_Cons find_upt_Suc) simp

lemma first_index_Nil: "old \<noteq> [] \<Longrightarrow> first_index [] old = None"
  unfolding first_index_def by simp

text \<open>The scan of \<open>strings_Replace1\<close> replaces at the first index and nowhere else.\<close>

lemma strings_Replace1_first:
  "old \<noteq> [] \<Longrightarrow> strings_Replace1 s old new = spec_replace_first s old new"
proof (induction s)
  case Nil
  then show ?case by (simp add: spec_replace_first_def first_index_Nil)
next
  case (Cons c cs)
  show ?case
  proof (cases "take (length old) (c # cs) = old")
    case True
    then show ?thesis
      by (simp add: spec_replace_first_def first_index_Cons strings_HasPrefix_take)
  next
    case False
    have "strings_Replace1 (c # cs) old new = c # spec_replace_first cs old new"
      using False Cons by (simp add: strings_HasPrefix_take)
    also have "\<dots> = spec_replace_first (c # cs) old new"
      using False by (simp add: spec_replace_first_def first_index_Cons split: option.splits)
    finally show ?thesis .
  qed
qed

text \<open>Trimming on the right takes off the same characters as stripping one at a time.\<close>

lemma strings_TrimRight_strip: "strings_TrimRight s ''.tpl'' = spec_strip s"
proof (induction s rule: rev_induct)
  case Nil
  show ?case by (subst spec_strip.simps) (simp add: strings_TrimRight_def)
next
  case (snoc x xs)
  then show ?case by (subst spec_strip.simps) (auto simp: strings_TrimRight_def)
qed

text \<open>
  Claim C5.  For every raw template name, formatRenderName replaces the first
  occurrence of \<^verbatim>\<open>/templates/\<close> by \<^verbatim>\<open>/\<close> and then strips, from the right end, the
  characters that belong to the set of dot, t, p and l: it computes what the
  specification's rule \<open>spec_Format\<close> computes.  The trim is by character class and
  not by suffix: \<^verbatim>\<open>a/templates/tall.tpl\<close> loses \<^verbatim>\<open>ll.tpl\<close>.  The specification's example
  \<^verbatim>\<open>mypack/templates/job.nomad.tpl\<close> becomes \<^verbatim>\<open>mypack/job.nomad\<close>.
\<close>

theorem formatRenderName_first_templates_then_trim:
  "formatRenderName name = spec_Format name
   \<and> formatRenderName ''mypack/templates/job.nomad.tpl'' = ''mypack/job.nomad''
   \<and> formatRenderName ''a/templates/tall.tpl'' = ''a/ta''
   \<and> formatRenderName ''p/templates/x/templates/y.tpl'' = ''p/x/templates/y''"
proof -
  have "formatRenderName name = spec_Format name"
    by (simp add: formatRenderName_def spec_Format_def strings_Replace1_first
        strings_TrimRight_strip)
  moreover have "formatRenderName ''mypack/templates/job.nomad.tpl'' = ''mypack/job.nomad''"
    by (simp add: formatRenderName_def strings_TrimRight_def)
  moreover have "formatRenderName ''a/templates/tall.tpl'' = ''a/ta''"
    by (simp add: formatRenderName_def strings_TrimRight_def)
  moreover have "formatRenderName ''p/templates/x/templates/y.tpl'' = ''p/x/templates/y''"
    by (simp add: formatRenderName_def strings_TrimRight_def)
  ultimately show ?thesis by blast
qed

section \<open>The prompt and the render loop on concrete runs\<close>

text \<open>
  Claim C1.  The claim: when the user answers \<^verbatim>\<open>a\<close> (in either case) to the prompt,
  maybeConfirmOverwrite sets the auto-approve flag and returns \<^verbatim>\<open>(true, nil)\<close>, so that the file
  being confirmed is overwritten.  The code sets the flag but returns
  \<^verbatim>\<open>overwrite == "y"\<close>, which is false for \<^verbatim>\<open>a\<close>.  Here the file
  \<^verbatim>\<open>/out/mypack/job.nomad\<close> exists, the terminal is interactive and the answer is
  \<^verbatim>\<open>a\<close> (then \<^verbatim>\<open>A\<close>): maybeConfirmOverwrite returns \<^verbatim>\<open>(false, nil)\<close> with the flag
  set, toFile returns \<^verbatim>\<open>fs.ErrExist\<close>, and the file keeps its old content.
\<close>

theorem maybeConfirmOverwrite_answer_a_returns_false:
  "map_option (\<lambda>r. (fst r, autoApproved (snd r)))
     (maybeConfirmOverwrite (Suc 0) mem_os ''/out/mypack/job.nomad''
        (demo_state ''/out'' True [Inr ''a'']))
   = Some ((False, None), True)
   \<and> map_option (\<lambda>r. (fst r, autoApproved (snd r)))
       (maybeConfirmOverwrite (Suc 0) mem_os ''/out/mypack/job.nomad''
          (demo_state ''/out'' True [Inr ''A'']))
     = Some ((False, None), True)
   \<and> map_option
       (\<lambda>r. (fst r, autoApproved (snd r), map_of (filesys (snd r)) ''/out/mypack/job.nomad''))
       (toFile (Suc 0) mem_os job_render (demo_state ''/out'' True [Inr ''a'']))
     = Some (Some ErrExist, True, Some (MFile 420 ''old job''))"
  by (simp add: run_defs demo_defs mem_defs path_defs mode_defs)

text \<open>
  Claim C2.  The claim: when the read of the answer fails, the error leaves the file
  step and the loop over the renders stops at once.  The error does leave toFile, but
  Output returns only errors that match \<^verbatim>\<open>os.ErrExist\<close>, and the loop of Run never
  stops on an error.  Here both files exist, the first read fails with
  \<^verbatim>\<open>context.Canceled\<close> and the second answer is \<^verbatim>\<open>y\<close>: toFile returns the
  cancellation, Output returns nil, the first render is shown, the second render is
  prompted for, written and shown, and Run returns 0.
\<close>

theorem cancelled_prompt_does_not_stop_the_renders:
  "map_option fst
     (toFile (Suc 0) mem_os job_render (demo_state ''/out'' True [Inl Canceled, Inr ''y'']))
   = Some (Some Canceled)
   \<and> map_option fst
       (Output (Suc 0) mem_os job_render (demo_state ''/out'' True [Inl Canceled, Inr ''y'']))
     = Some None
   \<and> map_option
       (\<lambda>s. (ui_reads s, map_of (filesys s) ''/out/mypack/svc.nomad'', ui_events s))
       (outputRenders (Suc 0) mem_os [job_render, svc_render]
          (demo_state ''/out'' True [Inl Canceled, Inr ''y'']))
     = Some (2, Some (MFile 420 ''new svc''),
             [UIPrompt ''Output file exists, overwrite? [y/n/a] '' WarningBoldStyle]
             @ presented job_render
             @ [UIPrompt ''Output file exists, overwrite? [y/n/a] '' WarningBoldStyle]
             @ presented svc_render)
   \<and> map_option (\<lambda>r. (fst r, ui_reads (snd r)))
       (Run (Suc 0) mem_os (demo_ext demo_output) [''mypack'']
          (demo_state ''/out'' True [Inl Canceled, Inr ''y'']))
     = Some (Returned 0, 2)"
  by (simp add: Run_def Run_render_def assembleRenders_def appendRenders_def
      formatRenderName_def strings_TrimRight_def presented_def
      run_defs demo_defs mem_defs path_defs mode_defs)

text \<open>
  Claim C4.  The claim: when the output destination exists and is not a directory, the
  command fails in its setup with exit code 1, before anything is rendered.  The "fast
  failure" test of Run, whose comment speaks of \<^verbatim>\<open>to-dir\<close>, looks at
  \<^verbatim>\<open>c.packConfig.Path\<close> and never at \<^verbatim>\<open>c.renderToDir\<close>.  Here \<^verbatim>\<open>--to-dir\<close> is the
  regular file \<^verbatim>\<open>/notes\<close> and the pack path is a directory: the pack is rendered,
  every render fails in the file step, and Run returns 0.  With the pack path at the
  regular file instead, the test fires and Run returns 1.
\<close>

theorem to_dir_at_a_file_is_not_a_setup_failure:
  "Exists mem_os ''/notes'' True demo_fs
   \<and> IsDir mem_os ''/notes'' True demo_fs = Returned False
   \<and> map_option (\<lambda>r. (fst r, ui_events (snd r)))
       (Run (Suc 0) mem_os (demo_ext demo_output) [''mypack''] (demo_state ''/notes'' False []))
     = Some (Returned 0,
             [UIErrorWithContext ErrExist ''error rendering to file'' [],
              UIErrorWithContext ErrExist ''error rendering to file'' [],
              UIErrorWithContext ErrExist ''error rendering to file'' [],
              UIErrorWithContext ErrExist ''error rendering to file'' []])
   \<and> map_option (\<lambda>r. (fst r, ui_events (snd r)))
       (Run (Suc 0) mem_os (demo_ext demo_output) [''mypack'']
          ((demo_state ''/out'' False [])\<lparr>packConfig_Path := ''/notes''\<rparr>))
     = Some (Returned 1,
             [UIErrorWithContext (ErrorString ''output path exists and is not a directory'')
                ''failed to create output directory'' []])"
  by (simp add: Run_def Run_render_def assembleRenders_def appendRenders_def
      formatRenderName_def strings_TrimRight_def
      run_defs demo_defs mem_defs path_defs mode_defs)

section \<open>Output without a destination directory\<close>

lemma toTerminal_events: "toTerminal r s = s\<lparr>ui_events := ui_events s @ presented r\<rparr>"
  by (simp add: toTerminal_def ui_Output_def presented_def)

lemma outputRenders_terminal_only:
  "renderToDir s = [] \<Longrightarrow>
   outputRenders fuel os renders s =
     Some (s\<lparr>ui_events := ui_events s @ concat (map presented renders)\<rparr>)"
proof (induction renders arbitrary: s)
  case Nil
  then show ?case by simp
next
  case (Cons r rs)
  have out: "Output fuel os r s = Some (None, s\<lparr>ui_events := ui_events s @ presented r\<rparr>)"
    using Cons.prems by (simp add: Output_def toTerminal_events)
  have "renderToDir (s\<lparr>ui_events := ui_events s @ presented r\<rparr>) = []"
    using Cons.prems by simp
  from Cons.IH[OF this] out show ?case by simp
qed

text \<open>
  Claim C9.  When the destination directory is unset (\<open>renderToDir\<close> empty), the loop
  over the renders returns, for every operating system and whatever the fuel, and the
  state it returns differs from the one it started with only in the terminal: the file
  system is the same, so no directory was made and no file written, and the terminal
  has received, after what it had already shown, the presentation of every render of
  the batch, in the order of the batch.
\<close>

theorem empty_to_dir_touches_no_file:
  assumes "renderToDir s = []"
  shows "\<exists>s'. outputRenders fuel os renders s = Some s'
           \<and> filesys s' = filesys s
           \<and> ui_events s' = ui_events s @ concat (map presented renders)
           \<and> s' = s\<lparr>ui_events := ui_events s'\<rparr>"
  using outputRenders_terminal_only[OF assms, of fuel os renders] by simp

theorem empty_to_dir_touches_no_file_witness:
  "renderToDir (demo_state [] True []) = []
   \<and> (\<exists>s'. outputRenders 0 mem_os [job_render, svc_render] (demo_state [] True []) = Some s'
          \<and> filesys s' = demo_fs
          \<and> ui_events s' = presented job_render @ presented svc_render)"
proof -
  have h: "renderToDir (demo_state [] True []) = []"
    by (simp add: demo_state_def)
  from empty_to_dir_touches_no_file[OF h, of 0 mem_os "[job_render, svc_render]"]
  obtain s' where
    "outputRenders 0 mem_os [job_render, svc_render] (demo_state [] True []) = Some s'"
    "filesys s' = filesys (demo_state [] True [])"
    "ui_events s' =
       ui_events (demo_state [] True []) @ concat (map presented [job_render, svc_render])"
    by blast
  then show ?thesis using h by (auto simp: demo_state_def)
qed

section \<open>WriteFile onto a directory\<close>

text \<open>
  Claim C10, as the code has it.  When \<^verbatim>\<open>os.Stat\<close> finds a directory at the
  destination, WriteFile returns a \<^verbatim>\<open>PathError\<close> with the operation
  \<^verbatim>\<open>writefile\<close> and the destination path, writes nothing and leaves the file system
  as it was.  What the error wraps depends on \<open>overwrite\<close>: with \<open>overwrite\<close> it is
  "destination is a directory", without it the test for an existing destination comes
  first and the error is \<^verbatim>\<open>fs.ErrExist\<close>.
\<close>

theorem WriteFile_onto_directory:
  assumes "os_Stat os destination fs = Inr info" and "fi_IsDir info"
  shows "WriteFile os destination content overwrite fs =
           (Some (PathError ''writefile'' destination
              (if overwrite then ErrorString ''destination is a directory'' else ErrExist)),
            fs)"
  using assms by (simp add: WriteFile_def)

theorem WriteFile_onto_directory_witness:
  "os_Stat mem_os ''/out'' demo_fs = Inr \<lparr>fi_Mode = 493 OR ModeDir\<rparr>
   \<and> fi_IsDir \<lparr>fi_Mode = 493 OR ModeDir\<rparr>
   \<and> WriteFile mem_os ''/out'' ''new'' True demo_fs =
       (Some (PathError ''writefile'' ''/out'' (ErrorString ''destination is a directory'')),
        demo_fs)
   \<and> WriteFile mem_os ''/out'' ''new'' False demo_fs =
       (Some (PathError ''writefile'' ''/out'' ErrExist), demo_fs)"
proof -
  have h1: "os_Stat mem_os ''/out'' demo_fs = Inr \<lparr>fi_Mode = 493 OR ModeDir\<rparr>"
    by (simp add: demo_defs mem_defs path_defs mode_defs)
  have h2: "fi_IsDir \<lparr>fi_Mode = 493 OR ModeDir\<rparr>"
    by (simp add: mode_defs)
  show ?thesis
    using h1 h2 WriteFile_onto_directory[OF h1 h2, of "''new''" True]
      WriteFile_onto_directory[OF h1 h2, of "''new''" False]
    by simp
qed

text \<open>
  The claim as it was stated, "a \<^verbatim>\<open>PathError\<close> reporting that the destination is a
  directory, regardless of the value of the overwrite argument", fails without
  \<open>overwrite\<close>: \<^verbatim>\<open>/out\<close> is a directory, and the error of
  \<^verbatim>\<open>WriteFile("/out", "new", false)\<close> wraps \<^verbatim>\<open>fs.ErrExist\<close>.
\<close>

theorem WriteFile_onto_directory_without_overwrite:
  "(case os_Stat mem_os ''/out'' demo_fs of Inl err \<Rightarrow> False | Inr info \<Rightarrow> fi_IsDir info)
   \<and> fst (WriteFile mem_os ''/out'' ''new'' False demo_fs)
       = Some (PathError ''writefile'' ''/out'' ErrExist)
   \<and> fst (WriteFile mem_os ''/out'' ''new'' False demo_fs)
       \<noteq> Some (PathError ''writefile'' ''/out'' (ErrorString ''destination is a directory''))"
  by (simp add: WriteFile_def demo_defs mem_defs path_defs mode_defs)

section \<open>The order of the batch\<close>

lemma appendRenders_map: "appendRenders renders entries = renders @ map entry_render entries"
  unfolding appendRenders_def
  by (induction entries arbitrary: renders) (auto simp: entry_render_def)

text \<open>
  Claim C6, as the code has it.  The batch is: the dependent renders in the order in
  which \<^verbatim>\<open>range\<close> yields the entries of their map, then the parent renders in the
  order in which \<^verbatim>\<open>range\<close> yields theirs, then, when the output template was asked for
  and rendered without error, the render \<^verbatim>\<open>outputs.tpl\<close>, last.  Nothing sorts the
  entries; each becomes a render under its formatted name.
\<close>

theorem assembleRenders_order:
  "fst (assembleRenders ext renderOutput s) =
     map entry_render (DependentRenders renderOutput)
     @ map entry_render (ParentRenders renderOutput)
     @ (if renderOutputTemplate s then
          (case fst (ext_ProcessOutputTemplate ext s) of
             Inl err \<Rightarrow> []
           | Inr outputRender \<Rightarrow> [\<lparr>Name = ''outputs.tpl'', Content = outputRender\<rparr>])
        else [])"
proof (cases "ext_ProcessOutputTemplate ext s")
  case (Pair res s1)
  then show ?thesis
    by (cases res) (simp_all add: assembleRenders_def appendRenders_map)
qed

text \<open>
  The claim as it was stated has each group sorted by name.  When \<^verbatim>\<open>range\<close> yields
  the dependent entry \<^verbatim>\<open>dep/templates/b.nomad.tpl\<close> before
  \<^verbatim>\<open>dep/templates/a.nomad.tpl\<close>, the batch has \<^verbatim>\<open>dep/b.nomad\<close> before \<^verbatim>\<open>dep/a.nomad\<close>.
\<close>

theorem assembleRenders_not_sorted:
  "map Name (fst (assembleRenders (demo_ext demo_output) demo_output (demo_state ''/out'' False [])))
     = [''dep/b.nomad'', ''dep/a.nomad'', ''mypack/job.nomad'', ''mypack/svc.nomad'']
   \<and> \<not> sorted (map Name (map entry_render (DependentRenders demo_output)))"
  by (simp add: assembleRenders_def appendRenders_def entry_render_def formatRenderName_def
      strings_TrimRight_def demo_defs)

section \<open>Output with a destination directory\<close>

text \<open>
  Claim C3, as the code has it.  With a destination directory set, Output runs the file
  step first and returns exactly when the file step does.  If the file step ends with
  an error that \<^verbatim>\<open>errors.Is\<close> \<^verbatim>\<open>os.ErrExist\<close> (a declined overwrite is one), Output
  returns that error and the render is not shown.  After every other outcome of the
  file step (written, failed otherwise, read of the answer failed) Output returns nil
  and the render is shown: its presentation is added to the terminal of the state that
  the file step left, so the file step comes strictly before the terminal output.
\<close>

theorem Output_presents_unless_already_exists:
  assumes "renderToDir s \<noteq> []"
  shows "((Output fuel os r s = None) = (toFile fuel os r s = None))
         \<and> (\<forall>ferr s1. toFile fuel os r s = Some (ferr, s1) \<longrightarrow>
               Output fuel os r s =
                 (if (case ferr of None \<Rightarrow> False | Some err \<Rightarrow> errors_Is err ErrExist)
                  then Some (ferr, s1)
                  else Some (None, s1\<lparr>ui_events := ui_events s1 @ presented r\<rparr>)))"
  using assms
  by (auto simp: Output_def toTerminal_events split: option.splits)

theorem Output_presents_unless_already_exists_witness:
  "renderToDir (demo_state ''/out'' True [Inr ''y'']) \<noteq> []
   \<and> map_option
       (\<lambda>res. (fst res, map_of (filesys (snd res)) ''/out/mypack/job.nomad'',
                ui_events (snd res)))
       (Output (Suc 0) mem_os job_render (demo_state ''/out'' True [Inr ''y'']))
     = Some (None, Some (MFile 420 ''new job''),
             UIPrompt ''Output file exists, overwrite? [y/n/a] '' WarningBoldStyle
             # presented job_render)"
proof -
  let ?s = "demo_state ''/out'' True [Inr ''y'']"
  have h: "renderToDir ?s \<noteq> []"
    by (simp add: demo_state_def)
  have "\<exists>s1. toFile (Suc 0) mem_os job_render ?s = Some (None, s1)
          \<and> map_of (filesys s1) ''/out/mypack/job.nomad'' = Some (MFile 420 ''new job'')
          \<and> ui_events s1 = [UIPrompt ''Output file exists, overwrite? [y/n/a] '' WarningBoldStyle]"
    by (simp add: run_defs demo_defs mem_defs path_defs mode_defs)
  then obtain s1 where
    tf: "toFile (Suc 0) mem_os job_render ?s = Some (None, s1)" and
    fs: "map_of (filesys s1) ''/out/mypack/job.nomad'' = Some (MFile 420 ''new job'')" and
    ev: "ui_events s1 = [UIPrompt ''Output file exists, overwrite? [y/n/a] '' WarningBoldStyle]"
    by blast
  from Output_presents_unless_already_exists[OF h, of "Suc 0" mem_os job_render] tf
  have "Output (Suc 0) mem_os job_render ?s
          = Some (None, s1\<lparr>ui_events := ui_events s1 @ presented job_render\<rparr>)"
    by simp
  then show ?thesis using h fs ev by simp
qed

text \<open>
  The claim as it was stated has the render shown whatever the file step did, a
  declined overwrite included.  Here the file exists and the terminal is not
  interactive: the overwrite is declined, Output returns \<^verbatim>\<open>fs.ErrExist\<close> and the
  terminal has received nothing.
\<close>

theorem Output_declined_is_not_presented:
  "map_option (\<lambda>res. (fst res, ui_events (snd res)))
     (Output (Suc 0) mem_os job_render (demo_state ''/out'' False []))
   = Some (Some ErrExist, [])"
  by (simp add: run_defs demo_defs mem_defs path_defs mode_defs)

section \<open>The auto-approve flag\<close>

lemma promptLoop_keeps_flag:
  "promptLoop fuel s = Some (res, s') \<Longrightarrow> autoApproved s \<Longrightarrow> autoApproved s'"
proof (induction fuel arbitrary: s)
  case 0
  then show ?case by simp
next
  case (Suc fuel)
  show ?case
  proof (cases "ui_input s (ui_reads s)")
    case (Inl err)
    with Suc.prems show ?thesis by (auto simp: ui_Input_def)
  next
    case (Inr answer)
    let ?s1 = "s\<lparr>ui_events := ui_events s
                    @ [UIPrompt ''Output file exists, overwrite? [y/n/a] '' WarningBoldStyle],
                  ui_reads := Suc (ui_reads s)\<rparr>"
    show ?thesis
    proof (cases "strings_ToLower answer = ''y'' \<or> strings_ToLower answer = ''n''
                  \<or> strings_ToLower answer = ''a''")
      case True
      with Suc.prems Inr show ?thesis
        by (auto simp: ui_Input_def Let_def split: if_splits)
    next
      case False
      with Suc.prems(1) Inr have "promptLoop fuel ?s1 = Some (res, s')"
        by (simp add: ui_Input_def Let_def)
      moreover have "autoApproved ?s1" using Suc.prems(2) by simp
      ultimately show ?thesis by (rule Suc.IH)
    qed
  qed
qed

lemma maybeConfirmOverwrite_approved:
  "autoApproved s \<Longrightarrow> maybeConfirmOverwrite fuel os p s = Some ((True, None), s)"
  by (simp add: maybeConfirmOverwrite_def)

lemma toFile_approved:
  assumes "autoApproved s"
  shows "\<exists>err s'. toFile fuel os r s = Some (err, s')
           \<and> autoApproved s' \<and> ui_reads s' = ui_reads s \<and> ui_events s' = ui_events s"
  using assms
  by (auto simp: toFile_def maybeConfirmOverwrite_def Let_def split: prod.splits option.splits)

lemma Output_approved:
  assumes "autoApproved s"
  shows "\<exists>err s'. Output fuel os r s = Some (err, s')
           \<and> autoApproved s' \<and> ui_reads s' = ui_reads s
           \<and> filter is_prompt (ui_events s') = filter is_prompt (ui_events s)"
proof (cases "renderToDir s = []")
  case True
  with assms show ?thesis
    by (simp add: Output_def toTerminal_events presented_def)
next
  case False
  from toFile_approved[OF assms, of fuel os r] obtain err s1 where
    tf: "toFile fuel os r s = Some (err, s1)" and
    keep: "autoApproved s1" "ui_reads s1 = ui_reads s" "ui_events s1 = ui_events s"
    by blast
  with False show ?thesis
    by (auto simp: Output_def toTerminal_events presented_def split: option.splits)
qed

lemma outputRenders_approved:
  "autoApproved s \<Longrightarrow>
   \<exists>s'. outputRenders fuel os renders s = Some s'
      \<and> autoApproved s' \<and> ui_reads s' = ui_reads s
      \<and> filter is_prompt (ui_events s') = filter is_prompt (ui_events s)"
proof (induction renders arbitrary: s)
  case Nil
  then show ?case by simp
next
  case (Cons r rs)
  from Output_approved[OF Cons.prems, of fuel os r] obtain err s1 where
    out: "Output fuel os r s = Some (err, s1)" and
    keep: "autoApproved s1" "ui_reads s1 = ui_reads s"
      "filter is_prompt (ui_events s1) = filter is_prompt (ui_events s)"
    by blast
  show ?case
  proof (cases err)
    case None
    from Cons.IH[OF keep(1)] out None keep show ?thesis by auto
  next
    case (Some e)
    let ?s2 = "ui_ErrorWithContext e ''error rendering to file'' (errorContext s1) s1"
    have "autoApproved ?s2" "ui_reads ?s2 = ui_reads s"
      "filter is_prompt (ui_events ?s2) = filter is_prompt (ui_events s)"
      using keep by (simp_all add: ui_ErrorWithContext_def)
    with Cons.IH[of ?s2] out Some show ?thesis by auto
  qed
qed

text \<open>
  Claim C7.  The flag \<open>autoApproved\<close> starts false and is monotone.  The only
  assignment to it, in the prompt loop, sets it to true, so a call that starts with
  the flag set ends with it set.  Once it is set, maybeConfirmOverwrite returns
  \<^verbatim>\<open>(true, nil)\<close> at once, for every operating system and every path, so whatever is
  at the destination, and with the very state it was given: nothing was read and no
  prompt was shown, even with no fuel for the loop.  So a whole batch that starts with
  the flag set is output without reading an answer and without a prompt, and ends with
  the flag set.
\<close>

theorem autoApproved_monotone_and_immediate:
  "\<not> initial_autoApproved
   \<and> (autoApproved s \<longrightarrow> maybeConfirmOverwrite fuel os p s = Some ((True, None), s))
   \<and> (\<forall>res s'. autoApproved s \<and> promptLoop fuel s = Some (res, s') \<longrightarrow> autoApproved s')
   \<and> (\<forall>res s'. autoApproved s \<and> maybeConfirmOverwrite fuel os p s = Some (res, s')
         \<longrightarrow> autoApproved s')
   \<and> (autoApproved s \<longrightarrow>
        (\<exists>s'. outputRenders fuel os renders s = Some s'
             \<and> autoApproved s' \<and> ui_reads s' = ui_reads s
             \<and> filter is_prompt (ui_events s') = filter is_prompt (ui_events s)))"
proof -
  have "\<not> initial_autoApproved"
    by (simp add: initial_autoApproved_def)
  moreover have "autoApproved s \<longrightarrow> maybeConfirmOverwrite fuel os p s = Some ((True, None), s)"
    by (simp add: maybeConfirmOverwrite_approved)
  moreover have
    "\<forall>res s'. autoApproved s \<and> promptLoop fuel s = Some (res, s') \<longrightarrow> autoApproved s'"
    using promptLoop_keeps_flag by blast
  moreover have
    "\<forall>res s'. autoApproved s \<and> maybeConfirmOverwrite fuel os p s = Some (res, s')
        \<longrightarrow> autoApproved s'"
    by (auto simp: maybeConfirmOverwrite_approved)
  moreover have "autoApproved s \<longrightarrow>
        (\<exists>s'. outputRenders fuel os renders s = Some s'
             \<and> autoApproved s' \<and> ui_reads s' = ui_reads s
             \<and> filter is_prompt (ui_events s') = filter is_prompt (ui_events s))"
    using outputRenders_approved by blast
  ultimately show ?thesis by blast
qed

theorem autoApproved_monotone_and_immediate_witness:
  "autoApproved ((demo_state ''/out'' True [])\<lparr>autoApproved := True\<rparr>)
   \<and> map_option fst
       (maybeConfirmOverwrite 0 mem_os ''/out/mypack/job.nomad''
          ((demo_state ''/out'' True [])\<lparr>autoApproved := True\<rparr>))
     = Some (True, None)
   \<and> (\<exists>s'. outputRenders 0 mem_os [job_render, svc_render]
              ((demo_state ''/out'' True [])\<lparr>autoApproved := True\<rparr>) = Some s'
          \<and> autoApproved s' \<and> ui_reads s' = 0 \<and> filter is_prompt (ui_events s') = [])"
proof -
  let ?s = "(demo_state ''/out'' True [])\<lparr>autoApproved := True\<rparr>"
  have h: "autoApproved ?s" by simp
  note inst = autoApproved_monotone_and_immediate
    [of ?s 0 mem_os "''/out/mypack/job.nomad''" "[job_render, svc_render]"]
  from inst h have
    "maybeConfirmOverwrite 0 mem_os ''/out/mypack/job.nomad'' ?s = Some ((True, None), ?s)"
    by blast
  moreover from inst h have
    "\<exists>s'. outputRenders 0 mem_os [job_render, svc_render] ?s = Some s'
        \<and> autoApproved s' \<and> ui_reads s' = ui_reads ?s
        \<and> filter is_prompt (ui_events s') = filter is_prompt (ui_events ?s)"
    by blast
  ultimately show ?thesis using h by (simp add: demo_state_def)
qed

section \<open>CopyDir\<close>








text \<open>
  What "CopyFile returned no error" says: once \<^verbatim>\<open>os.Open\<close> has succeeded, the result
  of CopyFile is the result of closing the source file, whatever happened in between.
  In the example the destination cannot be created, CopyFile returns nil and the file
  system is as before.
\<close>

lemma CopyFile_result_is_close_of_source:
  assumes "os_Open os sourcePath fs = (Inr sourceFile, fs1)"
  shows "\<exists>fs2. CopyFile os sourcePath destinationPath fs = file_Close os sourceFile fs2"
proof (cases "os_Create os destinationPath fs1")
  case (Pair res fs2)
  show ?thesis
  proof (cases res)
    case (Inl err)
    with Pair assms show ?thesis by (auto simp: CopyFile_def)
  next
    case (Inr destinationFile)
    with Pair assms show ?thesis
      by (auto simp: CopyFile_def split: prod.splits)
  qed
qed

lemma CopyFile_destination_not_created:
  "CopyFile mem_os ''/src/a.txt'' ''/nowhere/a.txt'' demo_fs = (None, demo_fs)"
  by (simp add: CopyFile_def demo_defs mem_defs path_defs mode_defs)



end
